theory Spec2Isabelle
  imports Complex_Main "HOL-Library.Signed_Division"
begin

section \<open>The IoTaWatt module: data model\<close>

text \<open>
  The repository holds two versions of one Go file. \<^verbatim>\<open>src/iotawatt.go\<close> polls at full
  resolution, converts to kilowatts and stops on a failed poll (the spec's Variant B);
  \<^verbatim>\<open>src/unnamed/part_000\<close> polls at low resolution, downsamples the series and carries
  on after a failed poll (the spec's Variant A). Definitions that differ between the two
  carry the suffix \<open>_A\<close> or \<open>_B\<close>; the others are common to both files.

  A \<^verbatim>\<open>float64\<close> is modelled as a real number: the values come out of a JSON decoder,
  so they are finite, and rounding is not modelled.
\<close>

type_synonym float64 = real

text \<open>Go errors: \<^verbatim>\<open>errors.New(msg)\<close>, \<^verbatim>\<open>fmt.Errorf(prefix + "%w", err)\<close>, and an error
  handed back by a library or by the host (its message).\<close>

datatype error =
    errors_New string
  | fmt_Errorf string error
  | Foreign string

text \<open>Run-time panics of the Go runtime. Neither file calls \<^verbatim>\<open>recover\<close>, so a panic in
  the worker goroutine ends the whole process.\<close>

datatype panic =
    IndexOutOfRange int nat
  | CloseOfClosedChannel

text \<open>\<^verbatim>\<open>type series struct { Data [][]float64 }\<close>\<close>

datatype series = Series (Data: "float64 list list")

record Config =
  URL :: string
  Inputs :: "string list"
  Interval :: int

record Info =
  Name :: string
  Path :: string

text \<open>\<^verbatim>\<open>url.Values\<close> is a \<^verbatim>\<open>map[string][]string\<close>.\<close>

type_synonym url_Values = "string \<rightharpoonup> string list"

text \<open>The module. \<open>done_closed\<close> is the state of the channel \<^verbatim>\<open>done\<close>, which carries no
  value and is only ever closed; the capabilities \<^verbatim>\<open>ui\<close> and \<^verbatim>\<open>log\<close> are the environment.\<close>

record Module =
  name :: string
  path :: string
  cfg :: Config
  baseURL :: string
  qryVals :: url_Values
  done_closed :: bool

section \<open>Indexing and loops\<close>

text \<open>\<^verbatim>\<open>xs[i]\<close> on a slice: a panic outside \<open>0 \<le> i < len(xs)\<close>.\<close>

definition index :: "'a list \<Rightarrow> int \<Rightarrow> panic + 'a" where
  "index xs i =
     (if 0 \<le> i \<and> i < int (length xs) then Inr (xs ! nat i)
      else Inl (IndexOutOfRange i (length xs)))"

text \<open>A loop over a list whose body may panic: the first panic ends the loop.\<close>

primrec foldE :: "('a \<Rightarrow> 's \<Rightarrow> panic + 's) \<Rightarrow> 'a list \<Rightarrow> 's \<Rightarrow> panic + 's" where
  "foldE f [] s = Inr s"
| "foldE f (x # xs) s = (case f x s of Inl p \<Rightarrow> Inl p | Inr s' \<Rightarrow> foldE f xs s')"

text \<open>\<^verbatim>\<open>series[i-1].Data = append(series[i-1].Data, pt)\<close>; the index is in range wherever
  the code does this, since \<open>1 \<le> i \<le> l\<close> and \<^verbatim>\<open>series\<close> has length \<open>l\<close>.\<close>

definition append_point :: "series list \<Rightarrow> nat \<Rightarrow> float64 list \<Rightarrow> series list" where
  "append_point ss k pt = ss[k := Series (Data (ss ! k) @ [pt])]"

text \<open>\<^verbatim>\<open>int(x)\<close> of a \<^verbatim>\<open>float64\<close> drops the fraction (exact for \<open>\<bar>x\<bar> < 2^63\<close>; beyond that Go
  leaves the result to the implementation), and \<^verbatim>\<open>%\<close> is the remainder of the truncating
  division.\<close>

definition float64_to_int :: "float64 \<Rightarrow> int" where
  "float64_to_int x = (if 0 \<le> x then \<lfloor>x\<rfloor> else \<lceil>x\<rceil>)"

section \<open>Aggregation\<close>

subsection \<open>\<^verbatim>\<open>src/iotawatt.go\<close>, lines 111 to 122\<close>

text \<open>The body of \<^verbatim>\<open>for i := 1; i <= l; i++\<close>, on the pair of \<^verbatim>\<open>series\<close> and \<^verbatim>\<open>curr\<close>.\<close>

definition chan_step_B ::
  "float64 list \<Rightarrow> nat \<Rightarrow> series list \<times> float64 \<Rightarrow> panic + (series list \<times> float64)" where
  "chan_step_B row i acc =
     (case index row (int i) of
        Inl p \<Rightarrow> Inl p
      | Inr v \<Rightarrow>
          (let kw = v / 1000 in
           case index row 0 of
             Inl p \<Rightarrow> Inl p
           | Inr t \<Rightarrow> Inr (append_point (fst acc) (i - 1) [t, kw], snd acc + kw)))"

text \<open>The body of \<^verbatim>\<open>for _, row := range raw\<close>, on the pair of \<^verbatim>\<open>series\<close> and \<^verbatim>\<open>current\<close>.\<close>

definition row_step_B ::
  "nat \<Rightarrow> float64 list \<Rightarrow> series list \<times> float64 \<Rightarrow> panic + (series list \<times> float64)" where
  "row_step_B l row acc =
     (case foldE (chan_step_B row) [1..<Suc l] (fst acc, 0) of
        Inl p \<Rightarrow> Inl p
      | Inr (ss, c) \<Rightarrow> Inr (ss, c))"

definition aggregate_B :: "string list \<Rightarrow> float64 list list \<Rightarrow> panic + (series list \<times> float64)" where
  "aggregate_B inputs raw =
     (let l = length inputs in
      foldE (row_step_B l) raw (replicate l (Series []), 0))"

subsection \<open>\<^verbatim>\<open>src/unnamed/part_000\<close>, lines 115 to 130\<close>

text \<open>\<^verbatim>\<open>for i := 1; i <= l; i++ { current += raw[rl-1][i] }\<close>\<close>

definition current_step_A :: "float64 list list \<Rightarrow> nat \<Rightarrow> float64 \<Rightarrow> panic + float64" where
  "current_step_A raw i current =
     (case index raw (int (length raw) - 1) of
        Inl p \<Rightarrow> Inl p
      | Inr r \<Rightarrow> (case index r (int i) of Inl p \<Rightarrow> Inl p | Inr v \<Rightarrow> Inr (current + v)))"

text \<open>The body of \<^verbatim>\<open>for j := 1; j <= l; j++\<close>.\<close>

definition chan_step_A :: "float64 list \<Rightarrow> nat \<Rightarrow> series list \<Rightarrow> panic + series list" where
  "chan_step_A row j ss =
     (case index row 0 of
        Inl p \<Rightarrow> Inl p
      | Inr t \<Rightarrow>
          (case index row (int j) of
             Inl p \<Rightarrow> Inl p
           | Inr v \<Rightarrow> Inr (append_point ss (j - 1) [t, v])))"

text \<open>The body of \<^verbatim>\<open>for _, row := range raw\<close>, with its \<^verbatim>\<open>continue\<close>.\<close>

definition row_step_A :: "nat \<Rightarrow> float64 list \<Rightarrow> series list \<Rightarrow> panic + series list" where
  "row_step_A l row ss =
     (case index row 0 of
        Inl p \<Rightarrow> Inl p
      | Inr t \<Rightarrow>
          if float64_to_int t smod 20 \<noteq> 0 then Inr ss
          else foldE (chan_step_A row) [1..<Suc l] ss)"

definition aggregate_A :: "string list \<Rightarrow> float64 list list \<Rightarrow> panic + (series list \<times> float64)" where
  "aggregate_A inputs raw =
     (let l = length inputs in
      case foldE (current_step_A raw) [1..<Suc l] 0 of
        Inl p \<Rightarrow> Inl p
      | Inr current \<Rightarrow>
          (case foldE (row_step_A l) raw (replicate l (Series [])) of
             Inl p \<Rightarrow> Inl p
           | Inr ss \<Rightarrow> Inr (ss, current)))"

section \<open>The environment of the worker\<close>

text \<open>
  The script templates handed to \<^verbatim>\<open>ui.Eval\<close>, by what they change:
  \<^item> \<open>SetCurrentNumber\<close>: \<^verbatim>\<open>document.querySelector('#%s .current .number').innerText = '%s'\<close>
  \<^item> \<open>SetCurrentHTML\<close>: \<^verbatim>\<open>document.querySelector('#%s .current').innerHTML = '%s<sel>.%s %s</sel>'\<close>
  \<^item> \<open>ClassListRemove\<close>: \<^verbatim>\<open>document.querySelector('#%s .current').classList.remove('%s')\<close>
  \<^item> \<open>ClassListAdd\<close>: \<^verbatim>\<open>document.querySelector('#%s .current').classList.add('%s')\<close>
  \<^item> \<open>SetSeries\<close>: \<^verbatim>\<open>iotaWattSeries = %s\<close>
  \<^item> \<open>ChartUpdate\<close>: \<^verbatim>\<open>iotaWattChart.update({series: iotaWattSeries})\<close>
  \<^item> \<open>ChartUpdateRedraw\<close>: \<^verbatim>\<open>iotaWattChart.update({series: iotaWattSeries},true,true)\<close>
\<close>

datatype script =
    SetCurrentNumber
  | SetCurrentHTML
  | ClassListRemove
  | ClassListAdd
  | SetSeries
  | ChartUpdate
  | ChartUpdateRedraw

text \<open>The arguments of a template: a string, or the text a library function makes of a
  value (\<^verbatim>\<open>strconv.FormatFloat(x, 'f', 1, 64)\<close>, \<^verbatim>\<open>strconv.Itoa(n)\<close>,
  \<^verbatim>\<open>string(json.Marshal(series))\<close>), kept as the value it was made from.\<close>

datatype arg =
    Str string
  | FormatFloat float64
  | Itoa int
  | Marshal "series list"

text \<open>What the worker does to the outside, in the order it does it: the GET that
  \<^verbatim>\<open>c.Do(req)\<close> sends (base URL, relative path, query values encoded into the URL), a
  call of \<^verbatim>\<open>m.ui.Eval\<close>, a call of \<^verbatim>\<open>m.log.Error\<close> (message, module id, error).\<close>

datatype event =
    HttpGet string string url_Values
  | UiEval script "arg list"
  | LogError string string error

text \<open>What the outside answers during one call of \<^verbatim>\<open>request\<close>: the error of each
  fallible call, the status code of the response and what decoding its body gives.\<close>

record http_env =
  url_Parse_err :: "error option"
  NewRequest_err :: "error option"
  Do_err :: "error option"
  StatusCode :: int
  Decode :: "error + float64 list list"

text \<open>What the outside answers during one pass of the loop body.\<close>

record tick_env =
  http :: http_env
  Marshal_err :: "error option"
  Eval_err :: "script \<Rightarrow> error option"

text \<open>The \<^verbatim>\<open>select\<close> over \<^verbatim>\<open>m.done\<close> and \<^verbatim>\<open>ticker.C\<close>. When several cases can proceed Go
  runs one of them, picked at random (\<open>chosen\<close>); when none can, the goroutine waits.\<close>

datatype recv = RecvDone | RecvTick

record select_env =
  done_ready :: bool
  tick_ready :: bool
  chosen :: recv

definition select :: "select_env \<Rightarrow> recv option" where
  "select s =
     (if done_ready s \<and> tick_ready s then Some (chosen s)
      else if done_ready s then Some RecvDone
      else if tick_ready s then Some RecvTick
      else None)"

section \<open>Construction\<close>

definition apiQueryPath :: string where
  "apiQueryPath = ''query''"

text \<open>\<^verbatim>\<open>time.Duration\<close> counts nanoseconds.\<close>

definition time_Second :: int where
  "time_Second = 1000000000"

definition time_Minute :: int where
  "time_Minute = 60 * time_Second"

definition NewConfig_B :: Config where
  "NewConfig_B = \<lparr>URL = [], Inputs = [], Interval = 2 * time_Second\<rparr>"

definition NewConfig_A :: Config where
  "NewConfig_A = \<lparr>URL = [], Inputs = [], Interval = time_Minute\<rparr>"

fun strings_Join :: "string list \<Rightarrow> string \<Rightarrow> string" where
  "strings_Join [] sep = []"
| "strings_Join [x] sep = x"
| "strings_Join (x # y # ys) sep = x @ sep @ strings_Join (y # ys) sep"

text \<open>What the outside answers during \<^verbatim>\<open>New\<close>: \<^verbatim>\<open>url.Parse(cfg.URL)\<close>, the two
  \<^verbatim>\<open>os.ReadFile\<close> calls and the three calls on the UI.\<close>

record new_env =
  Parse_err :: "error option"
  css_ReadFile_err :: "error option"
  LoadCSS_err :: "error option"
  html_ReadFile_err :: "error option"
  LoadHTML_err :: "error option"
  invoke_Eval_err :: "error option"

definition loadCSS :: "new_env \<Rightarrow> error option" where
  "loadCSS env =
     (case css_ReadFile_err env of
        Some e \<Rightarrow> Some (fmt_Errorf ''iotawatt: could not read css: '' e)
      | None \<Rightarrow> LoadCSS_err env)"

definition renderHTML :: "new_env \<Rightarrow> error option" where
  "renderHTML env =
     (case html_ReadFile_err env of
        Some e \<Rightarrow> Some (fmt_Errorf ''iotawatt: could not read html: '' e)
      | None \<Rightarrow>
          (case LoadHTML_err env of
             Some e \<Rightarrow> Some (fmt_Errorf ''iotawatt: could not load html: '' e)
           | None \<Rightarrow> invoke_Eval_err env))"

text \<open>The part of \<^verbatim>\<open>New\<close> after the query values, the same in both files. On success the
  caller gets the module and the worker \<^verbatim>\<open>m.run()\<close> has been started.\<close>

definition New_from :: "url_Values \<Rightarrow> new_env \<Rightarrow> Config \<Rightarrow> Info \<Rightarrow> error + Module" where
  "New_from qryValues env c info =
     (case Parse_err env of
        Some e \<Rightarrow> Inl (fmt_Errorf ''could not parse url: '' e)
      | None \<Rightarrow>
          (let m = \<lparr>name = Name info, path = Path info, cfg = c, baseURL = URL c,
                    qryVals = qryValues, done_closed = False\<rparr> in
           case loadCSS env of
             Some e \<Rightarrow> Inl e
           | None \<Rightarrow> (case renderHTML env of Some e \<Rightarrow> Inl e | None \<Rightarrow> Inr m)))"

text \<open>\<^verbatim>\<open>src/iotawatt.go\<close>, lines 55 to 64.\<close>

definition qryValues_B :: "Config \<Rightarrow> url_Values" where
  "qryValues_B c =
     (let qryValues =
            [''format'' \<mapsto> [''json''],
             ''resolution'' \<mapsto> [''high''],
             ''missing'' \<mapsto> [''null''],
             ''begin'' \<mapsto> [''s-1h''],
             ''end'' \<mapsto> [''s''],
             ''group'' \<mapsto> [''auto'']];
          inputs = [''time.utc.unix''] @ Inputs c
      in qryValues(''select'' \<mapsto> [''['' @ strings_Join inputs '','' @ '']'']))"

definition New_B :: "new_env \<Rightarrow> Config \<Rightarrow> Info \<Rightarrow> error + Module" where
  "New_B env c info = New_from (qryValues_B c) env c info"

text \<open>\<^verbatim>\<open>src/unnamed/part_000\<close>, lines 53 to 62.\<close>

definition qryValues_A :: "Config \<Rightarrow> url_Values" where
  "qryValues_A c =
     (let qryValues =
            [''format'' \<mapsto> [''json''],
             ''resolution'' \<mapsto> [''low''],
             ''missing'' \<mapsto> [''skip''],
             ''begin'' \<mapsto> [''s-1h''],
             ''end'' \<mapsto> [''s''],
             ''group'' \<mapsto> [''auto'']];
          inputs = [''time.utc.unix''] @ Inputs c
      in qryValues(''select'' \<mapsto> [''['' @ strings_Join inputs '','' @ '']'']))"

definition New_A :: "new_env \<Rightarrow> Config \<Rightarrow> Info \<Rightarrow> error + Module" where
  "New_A env c info = New_from (qryValues_A c) env c info"

section \<open>The request\<close>

text \<open>\<^verbatim>\<open>Module.request\<close>, the same in both files. The result is the events of the call and
  either the error returned or the rows decoded into \<^verbatim>\<open>v\<close>.\<close>

definition request :: "Module \<Rightarrow> http_env \<Rightarrow> event list \<times> (error + float64 list list)" where
  "request m h =
     (case url_Parse_err h of
        Some e \<Rightarrow> ([], Inl (fmt_Errorf ''could not parse url: '' e))
      | None \<Rightarrow>
     (case NewRequest_err h of
        Some e \<Rightarrow> ([], Inl (fmt_Errorf ''could create request: '' e))
      | None \<Rightarrow>
     (let sent = [HttpGet (baseURL m) apiQueryPath (qryVals m)] in
      case Do_err h of
        Some e \<Rightarrow> (sent, Inl (fmt_Errorf ''could not parse url: '' e))
      | None \<Rightarrow>
          if StatusCode h \<noteq> 200 then (sent, Inl (errors_New ''expected status code''))
          else
            (case Decode h of
               Inl e \<Rightarrow> (sent, Inl (fmt_Errorf ''could not parse data: '' e))
             | Inr v \<Rightarrow> (sent, Inr v)))))"

section \<open>Closing\<close>

text \<open>\<^verbatim>\<open>close(ch)\<close> on a channel that is already closed panics.\<close>

definition close_chan :: "bool \<Rightarrow> panic + bool" where
  "close_chan is_closed = (if is_closed then Inl CloseOfClosedChannel else Inr True)"

text \<open>\<^verbatim>\<open>Module.Close\<close>: the module after the call and the error returned (always \<^verbatim>\<open>nil\<close>), or
  the panic.\<close>

definition Close :: "Module \<Rightarrow> panic + (Module \<times> error option)" where
  "Close m =
     (case close_chan (done_closed m) of
        Inl p \<Rightarrow> Inl p
      | Inr c \<Rightarrow> Inr (m\<lparr>done_closed := c\<rparr>, None))"

section \<open>The worker\<close>

text \<open>How one pass of the loop body ends: it reaches the end of the body (or a
  \<^verbatim>\<open>continue\<close>), it executes a \<^verbatim>\<open>return\<close>, or it panics.\<close>

datatype outcome = Continue | Return | Panicked panic

text \<open>Where the worker is once the environment has nothing more to offer: waiting in its
  \<^verbatim>\<open>select\<close>, returned from \<^verbatim>\<open>run\<close>, or crashed by a panic (and the process with it).\<close>

datatype status = Blocked | Returned | Crashed panic

text \<open>The recurring statement
  \<^verbatim>\<open>if _, err = m.ui.Eval(tmpl, args...); err != nil { m.log.Error(msg, ...) }\<close>.\<close>

definition eval_logged :: "Module \<Rightarrow> tick_env \<Rightarrow> script \<Rightarrow> arg list \<Rightarrow> string \<Rightarrow> event list" where
  "eval_logged m e sc args msg =
     UiEval sc args #
       (case Eval_err e sc of Some err \<Rightarrow> [LogError msg (name m) err] | None \<Rightarrow> [])"

text \<open>\<^verbatim>\<open>m.log.Error(msg, "module", "iotawatt", "id", m.name, "error", err.Error())\<close>\<close>

definition log_Error :: "Module \<Rightarrow> string \<Rightarrow> error \<Rightarrow> event list" where
  "log_Error m msg err = [LogError msg (name m) err]"

subsection \<open>\<^verbatim>\<open>src/iotawatt.go\<close>\<close>

text \<open>Lines 130 to 140: the three calls of \<^verbatim>\<open>m.ui.Eval\<close>.\<close>

definition render_B :: "Module \<Rightarrow> tick_env \<Rightarrow> series list \<Rightarrow> float64 \<Rightarrow> event list" where
  "render_B m e ss current =
     (let f = FormatFloat current in
      eval_logged m e SetCurrentNumber [Str (name m), f] ''Could not update current'' @
      eval_logged m e SetSeries [Marshal ss] ''Could not update series'' @
      eval_logged m e ChartUpdate [] ''Could not update chart'')"

text \<open>Lines 105 to 140: the loop body up to the \<^verbatim>\<open>select\<close>.\<close>

definition body_B :: "Module \<Rightarrow> tick_env \<Rightarrow> event list \<times> outcome" where
  "body_B m e =
     (case request m (http e) of
        (evs, Inl err) \<Rightarrow>
          (evs @ log_Error m ''Could not get current IoTaWatt data'' err, Return)
      | (evs, Inr raw) \<Rightarrow>
          (case aggregate_B (Inputs (cfg m)) raw of
             Inl p \<Rightarrow> (evs, Panicked p)
           | Inr (ss, current) \<Rightarrow>
               (case Marshal_err e of
                  Some err \<Rightarrow> (evs @ log_Error m ''could not encode data'' err, Return)
                | None \<Rightarrow> (evs @ render_B m e ss current, Continue))))"

text \<open>The loop from its \<^verbatim>\<open>select\<close> (lines 142 to 147) on: each entry of the schedule is one
  moment at which the worker looks at its channels, with the answers for the body that
  follows when the timer is received.\<close>

fun loop_B :: "Module \<Rightarrow> (select_env \<times> tick_env) list \<Rightarrow> event list \<times> status" where
  "loop_B m [] = ([], Blocked)"
| "loop_B m ((s, e) # rest) =
     (case select s of
        None \<Rightarrow> loop_B m rest
      | Some RecvDone \<Rightarrow> ([], Returned)
      | Some RecvTick \<Rightarrow>
          (case body_B m e of
             (evs, Continue) \<Rightarrow> (evs @ fst (loop_B m rest), snd (loop_B m rest))
           | (evs, Return) \<Rightarrow> (evs, Returned)
           | (evs, Panicked p) \<Rightarrow> (evs, Crashed p)))"

text \<open>\<^verbatim>\<open>Module.run\<close>: the first pass of the body comes before any \<^verbatim>\<open>select\<close>.\<close>

definition run_B :: "Module \<Rightarrow> tick_env \<Rightarrow> (select_env \<times> tick_env) list \<Rightarrow> event list \<times> status" where
  "run_B m e0 sched =
     (case body_B m e0 of
        (evs, Continue) \<Rightarrow> (evs @ fst (loop_B m sched), snd (loop_B m sched))
      | (evs, Return) \<Rightarrow> (evs, Returned)
      | (evs, Panicked p) \<Rightarrow> (evs, Crashed p))"

subsection \<open>\<^verbatim>\<open>src/unnamed/part_000\<close>\<close>

text \<open>\<^verbatim>\<open>Module.renderCurrent\<close>: the events and the error returned. \<^verbatim>\<open>int\<close> is taken wide
  enough for the watts of a household.\<close>

definition renderCurrent :: "Module \<Rightarrow> tick_env \<Rightarrow> float64 \<Rightarrow> event list \<times> error option" where
  "renderCurrent m e watt0 =
     (let unit = (if watt0 > 100 then ''kW'' else ''W'');
          removeClass = (if watt0 > 100 then ''W'' else ''kW'');
          watt = (if watt0 > 100 then watt0 / 1000 else watt0);
          w = float64_to_int watt;
          d = float64_to_int (watt * 10) - (w * 10);
          ws = Itoa w;
          ds = Itoa d;
          ev1 = UiEval SetCurrentHTML [Str (name m), ws, ds, Str unit];
          ev2 = UiEval ClassListRemove [Str (name m), Str removeClass];
          ev3 = UiEval ClassListAdd [Str (name m), Str unit]
      in case Eval_err e SetCurrentHTML of
           Some err \<Rightarrow> ([ev1], Some err)
         | None \<Rightarrow>
             (case Eval_err e ClassListRemove of
                Some err \<Rightarrow> ([ev1, ev2], Some err)
              | None \<Rightarrow> ([ev1, ev2, ev3], Eval_err e ClassListAdd)))"

text \<open>Lines 132 to 134.\<close>

definition render_current_A :: "Module \<Rightarrow> tick_env \<Rightarrow> float64 \<Rightarrow> event list" where
  "render_current_A m e current =
     (case renderCurrent m e current of
        (evs, Some err) \<Rightarrow> evs @ log_Error m ''Could not update current'' err
      | (evs, None) \<Rightarrow> evs)"

text \<open>Lines 142 to 147.\<close>

definition render_series_A :: "Module \<Rightarrow> tick_env \<Rightarrow> series list \<Rightarrow> event list" where
  "render_series_A m e ss =
     eval_logged m e SetSeries [Marshal ss] ''Could not update series'' @
     eval_logged m e ChartUpdateRedraw [] ''Could not update chart''"

text \<open>Lines 109 to 147: the loop body after the \<^verbatim>\<open>select\<close>.\<close>

definition body_A :: "Module \<Rightarrow> tick_env \<Rightarrow> event list \<times> outcome" where
  "body_A m e =
     (case request m (http e) of
        (evs, Inl err) \<Rightarrow>
          (evs @ log_Error m ''Could not get current IoTaWatt data'' err, Continue)
      | (evs, Inr raw) \<Rightarrow>
          (case aggregate_A (Inputs (cfg m)) raw of
             Inl p \<Rightarrow> (evs, Panicked p)
           | Inr (ss, current) \<Rightarrow>
               (case Marshal_err e of
                  Some err \<Rightarrow>
                    (evs @ render_current_A m e current @
                       log_Error m ''could not encode data'' err, Continue)
                | None \<Rightarrow>
                    (evs @ render_current_A m e current @ render_series_A m e ss, Continue))))"

text \<open>\<^verbatim>\<open>Module.run\<close>: every pass starts with the \<^verbatim>\<open>select\<close> (lines 103 to 107).\<close>

fun run_A :: "Module \<Rightarrow> (select_env \<times> tick_env) list \<Rightarrow> event list \<times> status" where
  "run_A m [] = ([], Blocked)"
| "run_A m ((s, e) # rest) =
     (case select s of
        None \<Rightarrow> run_A m rest
      | Some RecvDone \<Rightarrow> ([], Returned)
      | Some RecvTick \<Rightarrow>
          (case body_A m e of
             (evs, Continue) \<Rightarrow> (evs @ fst (run_A m rest), snd (run_A m rest))
           | (evs, Return) \<Rightarrow> (evs, Returned)
           | (evs, Panicked p) \<Rightarrow> (evs, Crashed p)))"

section \<open>Example inputs\<close>

text \<open>The configuration of the README (one input, \<^verbatim>\<open>stove\<close>), a construction in which
  nothing fails, and the modules it gives.\<close>

definition readme_cfg :: Config where
  "readme_cfg = \<lparr>URL = ''http://your-iotawatt-url/'', Inputs = [''stove''], Interval = time_Minute\<rparr>"

definition readme_info :: Info where
  "readme_info = \<lparr>Name = ''simple-iotawatt'', Path = ''github.com/glasslabs/iotawatt''\<rparr>"

definition new_ok :: new_env where
  "new_ok = \<lparr>Parse_err = None, css_ReadFile_err = None, LoadCSS_err = None,
              html_ReadFile_err = None, LoadHTML_err = None, invoke_Eval_err = None\<rparr>"

definition readme_module_B :: Module where
  "readme_module_B =
     \<lparr>name = ''simple-iotawatt'', path = ''github.com/glasslabs/iotawatt'', cfg = readme_cfg,
      baseURL = ''http://your-iotawatt-url/'', qryVals = qryValues_B readme_cfg,
      done_closed = False\<rparr>"

definition readme_module_A :: Module where
  "readme_module_A =
     \<lparr>name = ''simple-iotawatt'', path = ''github.com/glasslabs/iotawatt'', cfg = readme_cfg,
      baseURL = ''http://your-iotawatt-url/'', qryVals = qryValues_A readme_cfg,
      done_closed = False\<rparr>"

text \<open>A response with the given status and rows, and a pass of the body in which only the
  response is as given and nothing else fails.\<close>

definition response :: "int \<Rightarrow> float64 list list \<Rightarrow> http_env" where
  "response code rows =
     \<lparr>url_Parse_err = None, NewRequest_err = None, Do_err = None,
      StatusCode = code, Decode = Inr rows\<rparr>"

definition tick_with :: "http_env \<Rightarrow> tick_env" where
  "tick_with h = \<lparr>http = h, Marshal_err = None, Eval_err = (\<lambda>sc. None)\<rparr>"

text \<open>The three states of the channels in which the \<^verbatim>\<open>select\<close> can proceed.\<close>

definition timer_fired :: select_env where
  "timer_fired = \<lparr>done_ready = False, tick_ready = True, chosen = RecvTick\<rparr>"

definition cancelled :: select_env where
  "cancelled = \<lparr>done_ready = True, tick_ready = False, chosen = RecvDone\<rparr>"

definition race :: "recv \<Rightarrow> select_env" where
  "race r = \<lparr>done_ready = True, tick_ready = True, chosen = r\<rparr>"

section \<open>Reading a trace\<close>

text \<open>The query values of the requests sent, and the scripts evaluated, in order.\<close>

fun gets :: "event list \<Rightarrow> url_Values list" where
  "gets [] = []"
| "gets (HttpGet b p q # evs) = q # gets evs"
| "gets (UiEval sc args # evs) = gets evs"
| "gets (LogError msg ident err # evs) = gets evs"

fun evals :: "event list \<Rightarrow> script list" where
  "evals [] = []"
| "evals (HttpGet b p q # evs) = evals evs"
| "evals (UiEval sc args # evs) = sc # evals evs"
| "evals (LogError msg ident err # evs) = evals evs"

text \<open>The three changes to the display that the spec's renderer makes, and the one each
  script belongs to: \<^verbatim>\<open>renderCurrent\<close> sets the text and swaps the unit class with three
  scripts.\<close>

datatype mutation = CurrentValue | SeriesAssignment | ChartRefresh

fun mutation_of :: "script \<Rightarrow> mutation" where
  "mutation_of SetCurrentNumber = CurrentValue"
| "mutation_of SetCurrentHTML = CurrentValue"
| "mutation_of ClassListRemove = CurrentValue"
| "mutation_of ClassListAdd = CurrentValue"
| "mutation_of SetSeries = SeriesAssignment"
| "mutation_of ChartUpdate = ChartRefresh"
| "mutation_of ChartUpdateRedraw = ChartRefresh"

section \<open>Aggregation: what the loops compute\<close>






















section \<open>Rows the loops cannot index\<close>

text \<open>
  C1. On an empty list of rows \<^verbatim>\<open>src/iotawatt.go\<close> gives the total 0 and one empty series for
  each input. \<^verbatim>\<open>src/unnamed/part_000\<close> does so only when no input is configured: with an
  input it evaluates \<^verbatim>\<open>raw[rl-1]\<close> at index \<open>-1\<close>, and the worker crashes after its request,
  before any log entry or display update.
\<close>

theorem empty_rows:
  "aggregate_B inputs [] = Inr (replicate (length inputs) (Series []), 0) \<and>
   aggregate_A [] [] = Inr ([], 0) \<and>
   aggregate_A (x # inputs) [] = Inl (IndexOutOfRange (- 1) 0) \<and>
   run_A readme_module_A ((timer_fired, tick_with (response 200 [])) # sched) =
     ([HttpGet ''http://your-iotawatt-url/'' ''query'' (qryValues_A readme_cfg)],
      Crashed (IndexOutOfRange (- 1) 0))"
  by (simp add: aggregate_B_def aggregate_A_def current_step_A_def index_def upt_rec
      body_A_def request_def readme_module_A_def readme_cfg_def tick_with_def response_def
      timer_fired_def select_def apiQueryPath_def del: upt_Suc)

text \<open>
  C3. A row with fewer than \<open>1 + N\<close> values is not turned into an error of the tick: with
  one input and the single row \<open>[100]\<close>, both files index the row at 1 and the worker
  crashes after its request, with nothing logged.
\<close>

theorem short_row:
  "run_B readme_module_B (tick_with (response 200 [[100]])) sched =
     ([HttpGet ''http://your-iotawatt-url/'' ''query'' (qryValues_B readme_cfg)],
      Crashed (IndexOutOfRange 1 1)) \<and>
   run_A readme_module_A ((timer_fired, tick_with (response 200 [[100]])) # sched) =
     ([HttpGet ''http://your-iotawatt-url/'' ''query'' (qryValues_A readme_cfg)],
      Crashed (IndexOutOfRange 1 1))"
  by (simp add: aggregate_B_def row_step_B_def chan_step_B_def aggregate_A_def current_step_A_def index_def
      run_B_def body_B_def
      body_A_def request_def readme_module_A_def readme_module_B_def readme_cfg_def tick_with_def response_def
      timer_fired_def select_def apiQueryPath_def)

section \<open>Requests in a trace\<close>

lemma gets_append: "gets (xs @ ys) = gets xs @ gets ys"
  by (induction xs rule: gets.induct) auto

lemma gets_request: "gets (fst (request m h)) = [] \<or> gets (fst (request m h)) = [qryVals m]"
  by (simp add: request_def Let_def split: option.splits sum.splits)

lemma gets_eval_logged: "gets (eval_logged m e sc args msg) = []"
  by (simp add: eval_logged_def split: option.splits)

lemma gets_log_Error: "gets (log_Error m msg err) = []"
  by (simp add: log_Error_def)

lemma gets_render_B: "gets (render_B m e ss current) = []"
  by (simp add: render_B_def gets_append gets_eval_logged)

lemma gets_render_current_A: "gets (render_current_A m e current) = []"
  by (simp add: render_current_A_def renderCurrent_def Let_def gets_append gets_log_Error
      split: option.splits)

lemma gets_render_series_A: "gets (render_series_A m e ss) = []"
  by (simp add: render_series_A_def gets_append gets_eval_logged)

lemma gets_body_B: "gets (fst (body_B m e)) = gets (fst (request m (http e)))"
  by (cases "request m (http e)")
     (auto simp: body_B_def gets_append gets_log_Error gets_render_B split: sum.splits option.splits)

lemma gets_body_A: "gets (fst (body_A m e)) = gets (fst (request m (http e)))"
  by (cases "request m (http e)")
     (auto simp: body_A_def gets_append gets_log_Error gets_render_current_A gets_render_series_A
        split: sum.splits option.splits)

section \<open>Status and decoding\<close>

text \<open>
  C7, as the code has it. \<^verbatim>\<open>request\<close> succeeds exactly when no call before the response
  fails, the status code is 200 and the body decodes; the rows are those decoded. With a
  response in hand, any status other than 200 (other 2xx codes included) gives the error
  \<^verbatim>\<open>expected status code\<close>, and a body that does not decode gives the error
  \<^verbatim>\<open>could not parse data\<close> wrapping the decoder's; the two differ. One call sends at most
  one GET, and one pass of either loop body calls it once: nothing is retried.
\<close>

theorem request_status_200:
  "(snd (request m h) = Inr rows \<longleftrightarrow>
      url_Parse_err h = None \<and> NewRequest_err h = None \<and> Do_err h = None \<and>
      StatusCode h = 200 \<and> Decode h = Inr rows) \<and>
   (url_Parse_err h = None \<and> NewRequest_err h = None \<and> Do_err h = None \<and> StatusCode h \<noteq> 200 \<longrightarrow>
      snd (request m h) = Inl (errors_New ''expected status code'')) \<and>
   (url_Parse_err h = None \<and> NewRequest_err h = None \<and> Do_err h = None \<and> StatusCode h = 200 \<and>
    Decode h = Inl e \<longrightarrow>
      snd (request m h) = Inl (fmt_Errorf ''could not parse data: '' e)) \<and>
   errors_New ''expected status code'' \<noteq> fmt_Errorf ''could not parse data: '' e \<and>
   length (gets (fst (request m h))) \<le> 1 \<and>
   length (gets (fst (body_A m t))) \<le> 1 \<and>
   length (gets (fst (body_B m t))) \<le> 1"
proof (intro conjI)
  show "snd (request m h) = Inr rows \<longleftrightarrow>
      url_Parse_err h = None \<and> NewRequest_err h = None \<and> Do_err h = None \<and>
      StatusCode h = 200 \<and> Decode h = Inr rows"
    by (auto simp: request_def Let_def split: option.splits sum.splits)
  show "url_Parse_err h = None \<and> NewRequest_err h = None \<and> Do_err h = None \<and> StatusCode h \<noteq> 200 \<longrightarrow>
      snd (request m h) = Inl (errors_New ''expected status code'')"
    by (simp add: request_def)
  show "url_Parse_err h = None \<and> NewRequest_err h = None \<and> Do_err h = None \<and> StatusCode h = 200 \<and>
    Decode h = Inl e \<longrightarrow>
      snd (request m h) = Inl (fmt_Errorf ''could not parse data: '' e)"
    by (simp add: request_def)
  show "errors_New ''expected status code'' \<noteq> fmt_Errorf ''could not parse data: '' e"
    by simp
  show "length (gets (fst (request m h))) \<le> 1"
    using gets_request [of m h] by auto
  show "length (gets (fst (body_A m t))) \<le> 1"
    using gets_request [of m "http t"] by (auto simp: gets_body_A)
  show "length (gets (fst (body_B m t))) \<le> 1"
    using gets_request [of m "http t"] by (auto simp: gets_body_B)
qed

theorem request_status_200_witness:
  "snd (request readme_module_B (response 200 [[100, 500]])) = Inr [[100, 500]] \<and>
   StatusCode (response 500 [[100, 500]]) \<noteq> 200 \<and>
   snd (request readme_module_B (response 500 [[100, 500]])) =
     Inl (errors_New ''expected status code'') \<and>
   Decode ((response 200 []) \<lparr>Decode := Inl (Foreign ''unexpected end of JSON input'')\<rparr>) =
     Inl (Foreign ''unexpected end of JSON input'') \<and>
   snd (request readme_module_B
          ((response 200 []) \<lparr>Decode := Inl (Foreign ''unexpected end of JSON input'')\<rparr>)) =
     Inl (fmt_Errorf ''could not parse data: '' (Foreign ''unexpected end of JSON input''))"
  using
    request_status_200 [of readme_module_B "response 200 [[100, 500]]" "[[100, 500]]"]
    request_status_200 [of readme_module_B "response 500 [[100, 500]]"]
    request_status_200 [of readme_module_B
      "(response 200 []) \<lparr>Decode := Inl (Foreign ''unexpected end of JSON input'')\<rparr>" _
      "Foreign ''unexpected end of JSON input''"]
  by (simp add: response_def)

text \<open>
  C7 as stated fails: 204 is a 2xx status and the body decodes, yet the request is an
  error.
\<close>

theorem request_204_counterexample:
  "(200 :: int) \<le> 204 \<and> (204 :: int) < 300 \<and>
   Decode (response 204 [[100, 500]]) = Inr [[100, 500]] \<and>
   snd (request readme_module_B (response 204 [[100, 500]])) =
     Inl (errors_New ''expected status code'')"
  by (simp add: request_def response_def)

section \<open>Closing twice\<close>

text \<open>
  C10, as the code has it. \<^verbatim>\<open>Close\<close> on a module whose channel is open closes it and returns
  \<^verbatim>\<open>nil\<close>; on a module whose channel is closed it panics.
\<close>

theorem Close_once:
  "(\<not> done_closed m \<longrightarrow> Close m = Inr (m\<lparr>done_closed := True\<rparr>, None)) \<and>
   (done_closed m \<longrightarrow> Close m = Inl CloseOfClosedChannel)"
  by (simp add: Close_def close_chan_def)

theorem Close_once_witness:
  "\<not> done_closed readme_module_B \<and>
   Close readme_module_B = Inr (readme_module_B\<lparr>done_closed := True\<rparr>, None) \<and>
   done_closed (readme_module_B\<lparr>done_closed := True\<rparr>) \<and>
   Close (readme_module_B\<lparr>done_closed := True\<rparr>) = Inl CloseOfClosedChannel"
  using Close_once [of readme_module_B] Close_once [of "readme_module_B\<lparr>done_closed := True\<rparr>"]
  by (simp add: readme_module_B_def)

text \<open>
  C10 as stated fails: the second of two calls panics with
  \<^verbatim>\<open>close of closed channel\<close>.
\<close>

theorem Close_twice_counterexample:
  "(case Close readme_module_B of Inl p \<Rightarrow> Inl p | Inr (m, err) \<Rightarrow> Close m) =
     Inl CloseOfClosedChannel"
  by (simp add: Close_def close_chan_def readme_module_B_def)

section \<open>The query values\<close>

lemma gets_body_B_sub: "set (gets (fst (body_B m e))) \<subseteq> {qryVals m}"
  using gets_request [of m "http e"] by (auto simp: gets_body_B)

lemma gets_body_A_sub: "set (gets (fst (body_A m e))) \<subseteq> {qryVals m}"
  using gets_request [of m "http e"] by (auto simp: gets_body_A)

lemma gets_loop_B: "set (gets (fst (loop_B m sched))) \<subseteq> {qryVals m}"
proof (induction sched)
  case Nil
  show ?case by simp
next
  case (Cons a sched)
  obtain s e where a: "a = (s, e)" by (cases a)
  show ?case
  proof (cases "select s")
    case None
    with Cons show ?thesis by (simp add: a)
  next
    case (Some r)
    show ?thesis
    proof (cases r)
      case RecvDone
      with Some show ?thesis by (simp add: a)
    next
      case RecvTick
      obtain evs out where b: "body_B m e = (evs, out)" by (cases "body_B m e")
      from gets_body_B_sub [of m e] b have g: "set (gets evs) \<subseteq> {qryVals m}" by simp
      show ?thesis
      proof (cases out)
        case Continue
        with Some RecvTick b g Cons show ?thesis by (simp add: a gets_append)
      next
        case Return
        with Some RecvTick b g show ?thesis by (simp add: a)
      next
        case (Panicked p)
        with Some RecvTick b g show ?thesis by (simp add: a)
      qed
    qed
  qed
qed

lemma gets_run_B: "set (gets (fst (run_B m e0 sched))) \<subseteq> {qryVals m}"
proof -
  obtain evs out where b: "body_B m e0 = (evs, out)" by (cases "body_B m e0")
  from gets_body_B_sub [of m e0] b have g: "set (gets evs) \<subseteq> {qryVals m}" by simp
  show ?thesis
  proof (cases out)
    case Continue
    with b g gets_loop_B [of m sched] show ?thesis by (simp add: run_B_def gets_append)
  next
    case Return
    with b g show ?thesis by (simp add: run_B_def)
  next
    case (Panicked p)
    with b g show ?thesis by (simp add: run_B_def)
  qed
qed

lemma gets_run_A: "set (gets (fst (run_A m sched))) \<subseteq> {qryVals m}"
proof (induction sched)
  case Nil
  show ?case by simp
next
  case (Cons a sched)
  obtain s e where a: "a = (s, e)" by (cases a)
  show ?case
  proof (cases "select s")
    case None
    with Cons show ?thesis by (simp add: a)
  next
    case (Some r)
    show ?thesis
    proof (cases r)
      case RecvDone
      with Some show ?thesis by (simp add: a)
    next
      case RecvTick
      obtain evs out where b: "body_A m e = (evs, out)" by (cases "body_A m e")
      from gets_body_A_sub [of m e] b have g: "set (gets evs) \<subseteq> {qryVals m}" by simp
      show ?thesis
      proof (cases out)
        case Continue
        with Some RecvTick b g Cons show ?thesis by (simp add: a gets_append)
      next
        case Return
        with Some RecvTick b g show ?thesis by (simp add: a)
      next
        case (Panicked p)
        with Some RecvTick b g show ?thesis by (simp add: a)
      qed
    qed
  qed
qed

lemma New_from_fields: "New_from qv env c info = Inr m \<Longrightarrow> qryVals m = qv \<and> cfg m = c"
  by (auto simp: New_from_def Let_def split: option.splits)

lemma New_B_readme: "New_B new_ok readme_cfg readme_info = Inr readme_module_B"
  by (simp add: New_B_def New_from_def new_ok_def loadCSS_def renderHTML_def readme_module_B_def
      readme_info_def readme_cfg_def Let_def)

lemma New_A_readme: "New_A new_ok readme_cfg readme_info = Inr readme_module_A"
  by (simp add: New_A_def New_from_def new_ok_def loadCSS_def renderHTML_def readme_module_A_def
      readme_info_def readme_cfg_def Let_def)

lemma run_B_two:
  "gets (fst (run_B readme_module_B (tick_with (response 200 [[100, 500]]))
                   [(timer_fired, tick_with (response 200 [[120, 700]]))])) =
     [qryVals readme_module_B, qryVals readme_module_B]"
  by (simp add: run_B_def body_B_def request_def tick_with_def response_def timer_fired_def
      select_def aggregate_B_def row_step_B_def chan_step_B_def index_def append_point_def
      render_B_def eval_logged_def Let_def readme_module_B_def readme_cfg_def)

lemma run_A_two:
  "gets (fst (run_A readme_module_A
                   [(timer_fired, tick_with (response 200 [[100, 500]])),
                    (timer_fired, tick_with (response 200 [[120, 700]]))])) =
     [qryVals readme_module_A, qryVals readme_module_A]"
  by (simp add: body_A_def request_def tick_with_def response_def timer_fired_def
      select_def aggregate_A_def row_step_A_def chan_step_A_def current_step_A_def index_def append_point_def
      render_current_A_def renderCurrent_def render_series_A_def eval_logged_def Let_def readme_module_A_def readme_cfg_def
      float64_to_int_def smod_int_alt_def)


lemma dom_qryValues_B: "dom (qryValues_B c) =
    {''select'', ''group'', ''end'', ''begin'', ''missing'', ''resolution'', ''format''}"
  unfolding qryValues_B_def Let_def by (simp only: dom_fun_upd dom_empty option.simps if_False)

lemma dom_qryValues_A: "dom (qryValues_A c) =
    {''select'', ''group'', ''end'', ''begin'', ''missing'', ''resolution'', ''format''}"
  unfolding qryValues_A_def Let_def by (simp only: dom_fun_upd dom_empty option.simps if_False)

text \<open>
  C8, as the code has it. The query values built in \<^verbatim>\<open>New\<close> have exactly the keys
  \<^verbatim>\<open>format\<close>, \<^verbatim>\<open>resolution\<close>, \<^verbatim>\<open>missing\<close>, \<^verbatim>\<open>begin\<close>, \<^verbatim>\<open>end\<close>, \<^verbatim>\<open>group\<close> and \<^verbatim>\<open>select\<close>, with
  \<^verbatim>\<open>format=json\<close>, a resolution and a missing-sample policy fixed by the version,
  \<^verbatim>\<open>begin=s-1h\<close>, \<^verbatim>\<open>end=s\<close>, \<^verbatim>\<open>group=auto\<close>, and for \<^verbatim>\<open>select\<close> the text of the list that
  starts with \<^verbatim>\<open>time.utc.unix\<close> and goes on with the configured inputs in their order.
  Every request of the worker, in any run, is sent with these values.
\<close>

theorem query_values:
  "(New_B env c info = Inr m \<longrightarrow>
      qryVals m =
        [''format'' \<mapsto> [''json''], ''resolution'' \<mapsto> [''high''], ''missing'' \<mapsto> [''null''],
         ''begin'' \<mapsto> [''s-1h''], ''end'' \<mapsto> [''s''], ''group'' \<mapsto> [''auto''],
         ''select'' \<mapsto> [''['' @ strings_Join (''time.utc.unix'' # Inputs c) '','' @ '']'']] \<and>
      dom (qryVals m) =
        {''select'', ''group'', ''end'', ''begin'', ''missing'', ''resolution'', ''format''} \<and>
      set (gets (fst (run_B m e0 sched))) \<subseteq> {qryVals m}) \<and>
   (New_A env c info = Inr m \<longrightarrow>
      qryVals m =
        [''format'' \<mapsto> [''json''], ''resolution'' \<mapsto> [''low''], ''missing'' \<mapsto> [''skip''],
         ''begin'' \<mapsto> [''s-1h''], ''end'' \<mapsto> [''s''], ''group'' \<mapsto> [''auto''],
         ''select'' \<mapsto> [''['' @ strings_Join (''time.utc.unix'' # Inputs c) '','' @ '']'']] \<and>
      dom (qryVals m) =
        {''select'', ''group'', ''end'', ''begin'', ''missing'', ''resolution'', ''format''} \<and>
      set (gets (fst (run_A m sched))) \<subseteq> {qryVals m})"
proof (intro conjI impI)
  assume n: "New_B env c info = Inr m"
  then have q: "qryVals m = qryValues_B c"
    using New_from_fields [of "qryValues_B c" env c info m] by (simp add: New_B_def)
  show "qryVals m =
        [''format'' \<mapsto> [''json''], ''resolution'' \<mapsto> [''high''], ''missing'' \<mapsto> [''null''],
         ''begin'' \<mapsto> [''s-1h''], ''end'' \<mapsto> [''s''], ''group'' \<mapsto> [''auto''],
         ''select'' \<mapsto> [''['' @ strings_Join (''time.utc.unix'' # Inputs c) '','' @ '']'']]"
    unfolding q qryValues_B_def Let_def by simp
  show "dom (qryVals m) =
        {''select'', ''group'', ''end'', ''begin'', ''missing'', ''resolution'', ''format''}"
    unfolding q by (rule dom_qryValues_B)
  show "set (gets (fst (run_B m e0 sched))) \<subseteq> {qryVals m}"
    by (rule gets_run_B)
next
  assume n: "New_A env c info = Inr m"
  then have q: "qryVals m = qryValues_A c"
    using New_from_fields [of "qryValues_A c" env c info m] by (simp add: New_A_def)
  show "qryVals m =
        [''format'' \<mapsto> [''json''], ''resolution'' \<mapsto> [''low''], ''missing'' \<mapsto> [''skip''],
         ''begin'' \<mapsto> [''s-1h''], ''end'' \<mapsto> [''s''], ''group'' \<mapsto> [''auto''],
         ''select'' \<mapsto> [''['' @ strings_Join (''time.utc.unix'' # Inputs c) '','' @ '']'']]"
    unfolding q qryValues_A_def Let_def by simp
  show "dom (qryVals m) =
        {''select'', ''group'', ''end'', ''begin'', ''missing'', ''resolution'', ''format''}"
    unfolding q by (rule dom_qryValues_A)
  show "set (gets (fst (run_A m sched))) \<subseteq> {qryVals m}"
    by (rule gets_run_A)
qed

theorem query_values_witness:
  "New_B new_ok readme_cfg readme_info = Inr readme_module_B \<and>
   qryVals readme_module_B ''select'' = Some [''[time.utc.unix,stove]''] \<and>
   qryVals readme_module_B ''begin'' = Some [''s-1h''] \<and>
   set (gets (fst (run_B readme_module_B (tick_with (response 200 [[100, 500]]))
                     [(timer_fired, tick_with (response 200 [[120, 700]]))]))) =
     {qryVals readme_module_B} \<and>
   New_A new_ok readme_cfg readme_info = Inr readme_module_A \<and>
   qryVals readme_module_A ''select'' = Some [''[time.utc.unix,stove]''] \<and>
   qryVals readme_module_A ''resolution'' = Some [''low''] \<and>
   set (gets (fst (run_A readme_module_A
                     [(timer_fired, tick_with (response 200 [[100, 500]])),
                      (timer_fired, tick_with (response 200 [[120, 700]]))]))) =
     {qryVals readme_module_A}"
proof -
  note B = query_values [of new_ok readme_cfg readme_info readme_module_B
      "tick_with (response 200 [[100, 500]])"
      "[(timer_fired, tick_with (response 200 [[120, 700]]))]", THEN conjunct1, rule_format,
      OF New_B_readme]
  note A = query_values [of new_ok readme_cfg readme_info readme_module_A
      "tick_with (response 200 [[100, 500]])"
      "[(timer_fired, tick_with (response 200 [[100, 500]])),
        (timer_fired, tick_with (response 200 [[120, 700]]))]", THEN conjunct2, rule_format,
      OF New_A_readme]
  have b1: "qryVals readme_module_B ''select'' = Some [''[time.utc.unix,stove]'']"
    by (simp add: B [THEN conjunct1] readme_cfg_def)
  have b2: "qryVals readme_module_B ''begin'' = Some [''s-1h'']"
    by (simp add: B [THEN conjunct1])
  have a1: "qryVals readme_module_A ''select'' = Some [''[time.utc.unix,stove]'']"
    by (simp add: A [THEN conjunct1] readme_cfg_def)
  have a2: "qryVals readme_module_A ''resolution'' = Some [''low'']"
    by (simp add: A [THEN conjunct1])
  show ?thesis
    using New_B_readme New_A_readme b1 b2 a1 a2 by (simp only: run_B_two run_A_two) simp
qed

text \<open>
  C8 as stated fails: the value of \<^verbatim>\<open>begin\<close> is \<^verbatim>\<open>s-1h\<close> in both files, not \<^verbatim>\<open>s-3600\<close>.
\<close>

theorem begin_counterexample:
  "(case New_B new_ok readme_cfg readme_info of
      Inl err \<Rightarrow> None
    | Inr m \<Rightarrow> qryVals m ''begin'') = Some [''s-1h''] \<and>
   (case New_A new_ok readme_cfg readme_info of
      Inl err \<Rightarrow> None
    | Inr m \<Rightarrow> qryVals m ''begin'') = Some [''s-1h''] \<and>
   ''s-1h'' \<noteq> ''s-3600''"
  by (simp add: New_B_readme New_A_readme readme_module_B_def readme_module_A_def
      qryValues_B_def qryValues_A_def)

section \<open>One pass of the loop\<close>

lemma run_A_tick:
  "select s = Some RecvTick \<Longrightarrow> snd (body_A m e) = Continue \<Longrightarrow>
   run_A m ((s, e) # rest) = (fst (body_A m e) @ fst (run_A m rest), snd (run_A m rest))"
  by (cases "body_A m e") simp

lemma loop_B_tick_return:
  "select s = Some RecvTick \<Longrightarrow> snd (body_B m e) = Return \<Longrightarrow>
   loop_B m ((s, e) # rest) = (fst (body_B m e), Returned)"
  by (cases "body_B m e") simp

lemma run_B_return:
  "snd (body_B m e) = Return \<Longrightarrow> run_B m e sched = (fst (body_B m e), Returned)"
  by (cases "body_B m e") (simp add: run_B_def)

lemma run_B_continue:
  "snd (body_B m e) = Continue \<Longrightarrow>
   run_B m e sched = (fst (body_B m e) @ fst (loop_B m sched), snd (loop_B m sched))"
  by (cases "body_B m e") (simp add: run_B_def)

lemma body_A_fetch_fails:
  "snd (request m (http e)) = Inl err \<Longrightarrow>
   body_A m e =
     (fst (request m (http e)) @ [LogError ''Could not get current IoTaWatt data'' (name m) err],
      Continue)"
  by (cases "request m (http e)") (simp add: body_A_def log_Error_def)

lemma body_B_fetch_fails:
  "snd (request m (http e)) = Inl err \<Longrightarrow>
   body_B m e =
     (fst (request m (http e)) @ [LogError ''Could not get current IoTaWatt data'' (name m) err],
      Return)"
  by (cases "request m (http e)") (simp add: body_B_def log_Error_def)

lemma body_A_encode_fails:
  "snd (request m (http e)) = Inr raw \<Longrightarrow> aggregate_A (Inputs (cfg m)) raw = Inr (ss, current) \<Longrightarrow>
   Marshal_err e = Some err \<Longrightarrow>
   body_A m e =
     (fst (request m (http e)) @ render_current_A m e current @
        [LogError ''could not encode data'' (name m) err],
      Continue)"
  by (cases "request m (http e)") (simp add: body_A_def log_Error_def)

lemma body_B_encode_fails:
  "snd (request m (http e)) = Inr raw \<Longrightarrow> aggregate_B (Inputs (cfg m)) raw = Inr (ss, current) \<Longrightarrow>
   Marshal_err e = Some err \<Longrightarrow>
   body_B m e =
     (fst (request m (http e)) @ [LogError ''could not encode data'' (name m) err], Return)"
  by (cases "request m (http e)") (simp add: body_B_def log_Error_def)

lemma body_A_renders:
  "snd (request m (http e)) = Inr raw \<Longrightarrow> aggregate_A (Inputs (cfg m)) raw = Inr (ss, current) \<Longrightarrow>
   Marshal_err e = None \<Longrightarrow>
   body_A m e =
     (fst (request m (http e)) @ render_current_A m e current @ render_series_A m e ss, Continue)"
  by (cases "request m (http e)") (simp add: body_A_def)

lemma body_B_renders:
  "snd (request m (http e)) = Inr raw \<Longrightarrow> aggregate_B (Inputs (cfg m)) raw = Inr (ss, current) \<Longrightarrow>
   Marshal_err e = None \<Longrightarrow>
   body_B m e = (fst (request m (http e)) @ render_B m e ss current, Continue)"
  by (cases "request m (http e)") (simp add: body_B_def)

lemma select_timer_fired: "select timer_fired = Some RecvTick"
  by (simp add: select_def timer_fired_def)

lemma request_response:
  "request m (response code rows) =
     ([HttpGet (baseURL m) apiQueryPath (qryVals m)],
      if code \<noteq> 200 then Inl (errors_New ''expected status code'') else Inr rows)"
  by (simp add: request_def response_def)

lemma aggregate_A_one: "aggregate_A [c] [[100, 500]] = Inr ([Series [[100, 500]]], 500)"
  by (simp add: aggregate_A_def row_step_A_def chan_step_A_def current_step_A_def index_def
      append_point_def float64_to_int_def smod_int_alt_def)

lemma aggregate_B_one: "aggregate_B [c] [[100, 500]] = Inr ([Series [[100, 0.5]]], 0.5)"
  by (simp add: aggregate_B_def row_step_B_def chan_step_B_def index_def append_point_def Let_def)

text \<open>
  C2, as the code has it. A failed request (an error of the exchange, a status other than
  200, a body that does not decode) and a failed encoding of the series are each logged
  once, as the last thing the pass does. In \<^verbatim>\<open>src/unnamed/part_000\<close> the pass then ends with
  \<^verbatim>\<open>continue\<close>: the worker neither returns nor panics, and goes on with the rest of the
  schedule from its \<^verbatim>\<open>select\<close>, where the next firing of the timer starts the next poll.
  In \<^verbatim>\<open>src/iotawatt.go\<close> the pass ends with \<^verbatim>\<open>return\<close>: the worker is gone, whatever the
  schedule still holds.
\<close>

theorem failed_tick:
  "(select s = Some RecvTick \<and> snd (request m (http e)) = Inl err \<longrightarrow>
      body_A m e =
        (fst (request m (http e)) @
           [LogError ''Could not get current IoTaWatt data'' (name m) err], Continue) \<and>
      run_A m ((s, e) # rest) = (fst (body_A m e) @ fst (run_A m rest), snd (run_A m rest))) \<and>
   (select s = Some RecvTick \<and> snd (request m (http e)) = Inr raw \<and>
    aggregate_A (Inputs (cfg m)) raw = Inr (ss, current) \<and> Marshal_err e = Some err \<longrightarrow>
      body_A m e =
        (fst (request m (http e)) @ render_current_A m e current @
           [LogError ''could not encode data'' (name m) err], Continue) \<and>
      run_A m ((s, e) # rest) = (fst (body_A m e) @ fst (run_A m rest), snd (run_A m rest))) \<and>
   (select s = Some RecvTick \<and> snd (request m (http e)) = Inl err \<longrightarrow>
      body_B m e =
        (fst (request m (http e)) @
           [LogError ''Could not get current IoTaWatt data'' (name m) err], Return) \<and>
      loop_B m ((s, e) # rest) = (fst (body_B m e), Returned) \<and>
      run_B m e rest = (fst (body_B m e), Returned)) \<and>
   (select s = Some RecvTick \<and> snd (request m (http e)) = Inr raw \<and>
    aggregate_B (Inputs (cfg m)) raw = Inr (ss, current) \<and> Marshal_err e = Some err \<longrightarrow>
      body_B m e =
        (fst (request m (http e)) @ [LogError ''could not encode data'' (name m) err], Return) \<and>
      loop_B m ((s, e) # rest) = (fst (body_B m e), Returned) \<and>
      run_B m e rest = (fst (body_B m e), Returned))"
proof (intro conjI impI)
  assume h: "select s = Some RecvTick \<and> snd (request m (http e)) = Inl err"
  then show a: "body_A m e =
        (fst (request m (http e)) @
           [LogError ''Could not get current IoTaWatt data'' (name m) err], Continue)"
    by (simp add: body_A_fetch_fails)
  from h a show "run_A m ((s, e) # rest) = (fst (body_A m e) @ fst (run_A m rest), snd (run_A m rest))"
    by (intro run_A_tick) simp_all
next
  assume h: "select s = Some RecvTick \<and> snd (request m (http e)) = Inr raw \<and>
    aggregate_A (Inputs (cfg m)) raw = Inr (ss, current) \<and> Marshal_err e = Some err"
  then show a: "body_A m e =
        (fst (request m (http e)) @ render_current_A m e current @
           [LogError ''could not encode data'' (name m) err], Continue)"
    by (simp add: body_A_encode_fails)
  from h a show "run_A m ((s, e) # rest) = (fst (body_A m e) @ fst (run_A m rest), snd (run_A m rest))"
    by (intro run_A_tick) simp_all
next
  assume h: "select s = Some RecvTick \<and> snd (request m (http e)) = Inl err"
  then show b: "body_B m e =
        (fst (request m (http e)) @
           [LogError ''Could not get current IoTaWatt data'' (name m) err], Return)"
    by (simp add: body_B_fetch_fails)
  from h b show "loop_B m ((s, e) # rest) = (fst (body_B m e), Returned)"
    by (intro loop_B_tick_return) simp_all
  from b show "run_B m e rest = (fst (body_B m e), Returned)"
    by (intro run_B_return) simp
next
  assume h: "select s = Some RecvTick \<and> snd (request m (http e)) = Inr raw \<and>
    aggregate_B (Inputs (cfg m)) raw = Inr (ss, current) \<and> Marshal_err e = Some err"
  then show b: "body_B m e =
        (fst (request m (http e)) @ [LogError ''could not encode data'' (name m) err], Return)"
    by (simp add: body_B_encode_fails)
  from h b show "loop_B m ((s, e) # rest) = (fst (body_B m e), Returned)"
    by (intro loop_B_tick_return) simp_all
  from b show "run_B m e rest = (fst (body_B m e), Returned)"
    by (intro run_B_return) simp
qed


theorem failed_tick_witness:
  "select timer_fired = Some RecvTick \<and>
   snd (request readme_module_A (http (tick_with (response 500 [])))) =
     Inl (errors_New ''expected status code'') \<and>
   snd (body_A readme_module_A (tick_with (response 500 []))) = Continue \<and>
   snd (run_A readme_module_A [(timer_fired, tick_with (response 500 []))]) = Blocked \<and>
   snd (request readme_module_A
          (http ((tick_with (response 200 [[100, 500]]))
                   \<lparr>Marshal_err := Some (Foreign ''json: unsupported value'')\<rparr>))) =
     Inr [[100, 500]] \<and>
   aggregate_A (Inputs (cfg readme_module_A)) [[100, 500]] = Inr ([Series [[100, 500]]], 500) \<and>
   snd (body_A readme_module_A
          ((tick_with (response 200 [[100, 500]]))
             \<lparr>Marshal_err := Some (Foreign ''json: unsupported value'')\<rparr>)) = Continue \<and>
   snd (request readme_module_B (http (tick_with (response 500 [])))) =
     Inl (errors_New ''expected status code'') \<and>
   snd (run_B readme_module_B (tick_with (response 500 []))
          [(timer_fired, tick_with (response 200 [[100, 500]]))]) = Returned \<and>
   aggregate_B (Inputs (cfg readme_module_B)) [[100, 500]] = Inr ([Series [[100, 0.5]]], 0.5) \<and>
   snd (run_B readme_module_B
          ((tick_with (response 200 [[100, 500]]))
             \<lparr>Marshal_err := Some (Foreign ''json: unsupported value'')\<rparr>)
          [(timer_fired, tick_with (response 200 [[100, 500]]))]) = Returned"
proof -
  let ?bad = "tick_with (response 500 [])"
  let ?enc = "(tick_with (response 200 [[100, 500]]))
                \<lparr>Marshal_err := Some (Foreign ''json: unsupported value'')\<rparr>"
  let ?next = "[(timer_fired, tick_with (response 200 [[100, 500]]))]"
  have r1: "snd (request readme_module_A (http ?bad)) = Inl (errors_New ''expected status code'')"
    by (simp add: tick_with_def request_response)
  have r2: "snd (request readme_module_A (http ?enc)) = Inr [[100, 500]]"
    by (simp add: tick_with_def request_response)
  have r3: "snd (request readme_module_B (http ?bad)) = Inl (errors_New ''expected status code'')"
    by (simp add: tick_with_def request_response)
  have r4: "snd (request readme_module_B (http ?enc)) = Inr [[100, 500]]"
    by (simp add: tick_with_def request_response)
  have a: "aggregate_A (Inputs (cfg readme_module_A)) [[100, 500]] = Inr ([Series [[100, 500]]], 500)"
    by (simp add: readme_module_A_def readme_cfg_def aggregate_A_one)
  have b: "aggregate_B (Inputs (cfg readme_module_B)) [[100, 500]] = Inr ([Series [[100, 0.5]]], 0.5)"
    by (simp add: readme_module_B_def readme_cfg_def aggregate_B_one)
  have m: "Marshal_err ?enc = Some (Foreign ''json: unsupported value'')"
    by (simp add: tick_with_def)
  note t1 = failed_tick [of timer_fired readme_module_A ?bad "errors_New ''expected status code''"
      "[]", THEN conjunct1, rule_format, OF conjI [OF select_timer_fired r1]]
  note t2 = failed_tick [of timer_fired readme_module_A ?enc "Foreign ''json: unsupported value''"
      "[]" "[[100, 500]]" "[Series [[100, 500]]]" 500,
      THEN conjunct2, THEN conjunct1, rule_format,
      OF conjI [OF select_timer_fired conjI [OF r2 conjI [OF a m]]]]
  note t3 = failed_tick [of timer_fired readme_module_B ?bad "errors_New ''expected status code''"
      ?next, THEN conjunct2, THEN conjunct2, THEN conjunct1, rule_format,
      OF conjI [OF select_timer_fired r3]]
  note t4 = failed_tick [of timer_fired readme_module_B ?enc "Foreign ''json: unsupported value''"
      ?next "[[100, 500]]" "[Series [[100, 0.5]]]" "0.5",
      THEN conjunct2, THEN conjunct2, THEN conjunct2, rule_format,
      OF conjI [OF select_timer_fired conjI [OF r4 conjI [OF b m]]]]
  have c1: "snd (body_A readme_module_A ?bad) = Continue"
    by (simp add: t1 [THEN conjunct1])
  have c2: "snd (run_A readme_module_A [(timer_fired, ?bad)]) = Blocked"
    by (simp only: t1 [THEN conjunct2]) simp
  have c3: "snd (body_A readme_module_A ?enc) = Continue"
    by (simp add: t2 [THEN conjunct1])
  have c4: "snd (run_B readme_module_B ?bad ?next) = Returned"
    by (simp only: t3 [THEN conjunct2, THEN conjunct2]) simp
  have c5: "snd (run_B readme_module_B ?enc ?next) = Returned"
    by (simp only: t4 [THEN conjunct2, THEN conjunct2]) simp
  from select_timer_fired r1 c1 c2 r2 a c3 r3 c4 b c5 show ?thesis
    by (intro conjI)
qed

text \<open>
  C2 as stated fails for \<^verbatim>\<open>src/iotawatt.go\<close>: after a response with status 500 the worker
  has logged the error and returned, and the timer that fires afterwards starts no poll.
\<close>

theorem failed_poll_returns_counterexample:
  "run_B readme_module_B (tick_with (response 500 []))
     [(timer_fired, tick_with (response 200 [[100, 500]]))] =
     ([HttpGet ''http://your-iotawatt-url/'' ''query'' (qryValues_B readme_cfg),
       LogError ''Could not get current IoTaWatt data'' ''simple-iotawatt''
         (errors_New ''expected status code'')],
      Returned)"
  by (simp add: run_B_def body_B_def request_response tick_with_def log_Error_def
      readme_module_B_def apiQueryPath_def)

section \<open>Cancellation\<close>

lemma select_done_only: "done_ready s \<Longrightarrow> \<not> tick_ready s \<Longrightarrow> select s = Some RecvDone"
  by (simp add: select_def)

lemma run_A_done: "select s = Some RecvDone \<Longrightarrow> run_A m ((s, e) # rest) = ([], Returned)"
  by simp

lemma loop_B_done: "select s = Some RecvDone \<Longrightarrow> loop_B m ((s, e) # rest) = ([], Returned)"
  by simp

lemma body_A_readme_ok:
  "snd (body_A readme_module_A (tick_with (response 200 [[100, 500]]))) = Continue"
proof -
  have "snd (request readme_module_A (http (tick_with (response 200 [[100, 500]])))) =
      Inr [[100, 500]]"
    by (simp add: tick_with_def request_response)
  moreover have "aggregate_A (Inputs (cfg readme_module_A)) [[100, 500]] =
      Inr ([Series [[100, 500]]], 500)"
    by (simp add: readme_module_A_def readme_cfg_def aggregate_A_one)
  moreover have "Marshal_err (tick_with (response 200 [[100, 500]])) = None"
    by (simp add: tick_with_def)
  ultimately have "body_A readme_module_A (tick_with (response 200 [[100, 500]])) =
      (fst (request readme_module_A (http (tick_with (response 200 [[100, 500]])))) @
         render_current_A readme_module_A (tick_with (response 200 [[100, 500]])) 500 @
         render_series_A readme_module_A (tick_with (response 200 [[100, 500]]))
           [Series [[100, 500]]],
       Continue)"
    by (rule body_A_renders)
  then show ?thesis by simp
qed

lemma body_B_readme_ok:
  "snd (body_B readme_module_B (tick_with (response 200 [[100, 500]]))) = Continue"
proof -
  have "snd (request readme_module_B (http (tick_with (response 200 [[100, 500]])))) =
      Inr [[100, 500]]"
    by (simp add: tick_with_def request_response)
  moreover have "aggregate_B (Inputs (cfg readme_module_B)) [[100, 500]] =
      Inr ([Series [[100, 0.5]]], 0.5)"
    by (simp add: readme_module_B_def readme_cfg_def aggregate_B_one)
  moreover have "Marshal_err (tick_with (response 200 [[100, 500]])) = None"
    by (simp add: tick_with_def)
  ultimately have "body_B readme_module_B (tick_with (response 200 [[100, 500]])) =
      (fst (request readme_module_B (http (tick_with (response 200 [[100, 500]])))) @
         render_B readme_module_B (tick_with (response 200 [[100, 500]]))
           [Series [[100, 0.5]]] 0.5,
       Continue)"
    by (rule body_B_renders)
  then show ?thesis by simp
qed

lemma gets_body_readme:
  "length (gets (fst (body_A m (tick_with (response 200 rows))))) = 1"
  "length (gets (fst (body_B m (tick_with (response 200 rows))))) = 1"
  by (simp_all add: gets_body_A gets_body_B tick_with_def request_response)

text \<open>
  C4, as the code has it. When the cancellation signal and the timer are both ready, the
  \<^verbatim>\<open>select\<close> runs the case the Go runtime picks. When the signal is ready and the timer is
  not, or the runtime picks the signal, the worker returns from its \<^verbatim>\<open>select\<close> without a
  new request, whatever the schedule still holds. A signal given while a pass of the body
  is under way is seen at the next \<^verbatim>\<open>select\<close>, under the same condition: the events of the
  run are those of that pass. The worker of \<^verbatim>\<open>src/iotawatt.go\<close> starts with a pass of the
  body, before it has looked at the signal.
\<close>

theorem cancellation:
  "(done_ready s \<and> tick_ready s \<longrightarrow> select s = Some (chosen s)) \<and>
   (done_ready s \<and> (tick_ready s \<longrightarrow> chosen s = RecvDone) \<longrightarrow>
      run_A m ((s, e) # rest) = ([], Returned) \<and>
      loop_B m ((s, e) # rest) = ([], Returned)) \<and>
   (select s1 = Some RecvTick \<and> snd (body_A m e1) = Continue \<and>
    done_ready s \<and> (tick_ready s \<longrightarrow> chosen s = RecvDone) \<longrightarrow>
      run_A m ((s1, e1) # (s, e) # rest) = (fst (body_A m e1), Returned)) \<and>
   (snd (body_B m e1) = Continue \<and>
    done_ready s \<and> (tick_ready s \<longrightarrow> chosen s = RecvDone) \<longrightarrow>
      run_B m e1 ((s, e) # rest) = (fst (body_B m e1), Returned)) \<and>
   take (length (fst (body_B m e1))) (fst (run_B m e1 rest)) = fst (body_B m e1)"
proof (intro conjI impI)
  assume "done_ready s \<and> tick_ready s"
  then show "select s = Some (chosen s)" by (simp add: select_def)
next
  assume "done_ready s \<and> (tick_ready s \<longrightarrow> chosen s = RecvDone)"
  then have d: "select s = Some RecvDone" by (auto simp: select_def)
  from d show "run_A m ((s, e) # rest) = ([], Returned)" by (rule run_A_done)
  from d show "loop_B m ((s, e) # rest) = ([], Returned)" by (rule loop_B_done)
next
  assume h: "select s1 = Some RecvTick \<and> snd (body_A m e1) = Continue \<and>
    done_ready s \<and> (tick_ready s \<longrightarrow> chosen s = RecvDone)"
  then have d: "select s = Some RecvDone" by (auto simp: select_def)
  from h have "run_A m ((s1, e1) # (s, e) # rest) =
      (fst (body_A m e1) @ fst (run_A m ((s, e) # rest)), snd (run_A m ((s, e) # rest)))"
    by (intro run_A_tick) simp_all
  then show "run_A m ((s1, e1) # (s, e) # rest) = (fst (body_A m e1), Returned)"
    by (simp only: run_A_done [OF d]) simp
next
  assume h: "snd (body_B m e1) = Continue \<and>
    done_ready s \<and> (tick_ready s \<longrightarrow> chosen s = RecvDone)"
  then have d: "select s = Some RecvDone" by (auto simp: select_def)
  from h have "run_B m e1 ((s, e) # rest) =
      (fst (body_B m e1) @ fst (loop_B m ((s, e) # rest)), snd (loop_B m ((s, e) # rest)))"
    by (intro run_B_continue) simp
  then show "run_B m e1 ((s, e) # rest) = (fst (body_B m e1), Returned)"
    by (simp only: loop_B_done [OF d]) simp
next
  show "take (length (fst (body_B m e1))) (fst (run_B m e1 rest)) = fst (body_B m e1)"
    by (cases "body_B m e1"; cases "snd (body_B m e1)") (simp_all add: run_B_def)
qed


theorem cancellation_witness:
  "done_ready (race RecvDone) \<and> tick_ready (race RecvDone) \<and>
   chosen (race RecvDone) = RecvDone \<and>
   select (race RecvDone) = Some RecvDone \<and>
   select timer_fired = Some RecvTick \<and>
   snd (body_A readme_module_A (tick_with (response 200 [[100, 500]]))) = Continue \<and>
   snd (body_B readme_module_B (tick_with (response 200 [[100, 500]]))) = Continue \<and>
   run_A readme_module_A
     [(race RecvDone, tick_with (response 200 [[100, 500]])),
      (timer_fired, tick_with (response 200 [[100, 500]]))] = ([], Returned) \<and>
   length (gets (fst (run_A readme_module_A
     [(timer_fired, tick_with (response 200 [[100, 500]])),
      (race RecvDone, tick_with (response 200 [[100, 500]])),
      (timer_fired, tick_with (response 200 [[100, 500]]))]))) = 1 \<and>
   length (gets (fst (run_B readme_module_B (tick_with (response 200 [[100, 500]]))
     [(race RecvDone, tick_with (response 200 [[100, 500]])),
      (timer_fired, tick_with (response 200 [[100, 500]]))]))) = 1"
proof -
  let ?ok = "tick_with (response 200 [[100, 500]])"
  have d: "done_ready (race RecvDone)" and t: "tick_ready (race RecvDone)"
    and c: "tick_ready (race RecvDone) \<longrightarrow> chosen (race RecvDone) = RecvDone"
    by (simp_all add: race_def)
  note A = cancellation [of "race RecvDone" readme_module_A ?ok "[(timer_fired, ?ok)]"
      timer_fired ?ok]
  note B = cancellation [of "race RecvDone" readme_module_B ?ok "[(timer_fired, ?ok)]"
      timer_fired ?ok]
  have s: "select (race RecvDone) = Some RecvDone"
    using A [THEN conjunct1] d t by (simp add: race_def)
  have r: "run_A readme_module_A [(race RecvDone, ?ok), (timer_fired, ?ok)] = ([], Returned)"
    using A [THEN conjunct2, THEN conjunct1] d c by simp
  have r2: "run_A readme_module_A [(timer_fired, ?ok), (race RecvDone, ?ok), (timer_fired, ?ok)] =
      (fst (body_A readme_module_A ?ok), Returned)"
    using A [THEN conjunct2, THEN conjunct2, THEN conjunct1] select_timer_fired
      body_A_readme_ok d c by simp
  have r3: "run_B readme_module_B ?ok [(race RecvDone, ?ok), (timer_fired, ?ok)] =
      (fst (body_B readme_module_B ?ok), Returned)"
    using B [THEN conjunct2, THEN conjunct2, THEN conjunct2, THEN conjunct1]
      body_B_readme_ok d c by simp
  have ga: "length (gets (fst (body_A readme_module_A ?ok))) = 1"
    by (rule gets_body_readme)
  have gb: "length (gets (fst (body_B readme_module_B ?ok))) = 1"
    by (rule gets_body_readme)
  have c': "chosen (race RecvDone) = RecvDone"
    by (simp add: race_def)
  from d t c' s select_timer_fired body_A_readme_ok body_B_readme_ok r ga gb show ?thesis
    by (simp only: r2 r3 fst_conv)
qed

text \<open>
  C4 as stated fails: with the signal delivered and the timer ready, the runtime may pick
  the timer, and the worker of either file then sends a request.
\<close>

theorem race_counterexample:
  "done_ready (race RecvTick) \<and> tick_ready (race RecvTick) \<and>
   length (gets (fst (run_A readme_module_A
     [(race RecvTick, tick_with (response 200 [[100, 500]]))]))) = 1 \<and>
   length (gets (fst (loop_B readme_module_B
     [(race RecvTick, tick_with (response 200 [[100, 500]]))]))) = 1"
proof -
  let ?ok = "tick_with (response 200 [[100, 500]])"
  have s: "select (race RecvTick) = Some RecvTick"
    by (simp add: select_def race_def)
  have a: "run_A readme_module_A [(race RecvTick, ?ok)] =
      (fst (body_A readme_module_A ?ok) @ fst (run_A readme_module_A []),
       snd (run_A readme_module_A []))"
    using s body_A_readme_ok by (rule run_A_tick)
  have b: "loop_B readme_module_B [(race RecvTick, ?ok)] =
      (fst (body_B readme_module_B ?ok), Blocked)"
    using s body_B_readme_ok by (cases "body_B readme_module_B ?ok") simp
  have ga: "length (gets (fst (body_A readme_module_A ?ok))) = 1"
    by (rule gets_body_readme)
  have gb: "length (gets (fst (body_B readme_module_B ?ok))) = 1"
    by (rule gets_body_readme)
  from ga gb show ?thesis
    by (simp only: a b fst_conv gets_append) (simp add: race_def)
qed

section \<open>Rendering\<close>

lemma evals_append: "evals (xs @ ys) = evals xs @ evals ys"
  by (induction xs rule: evals.induct) auto

lemma evals_request: "evals (fst (request m h)) = []"
  by (simp add: request_def Let_def split: option.splits sum.splits)

lemma evals_eval_logged: "evals (eval_logged m e sc args msg) = [sc]"
  by (simp add: eval_logged_def split: option.splits)

lemma evals_render_B: "evals (render_B m e ss current) = [SetCurrentNumber, SetSeries, ChartUpdate]"
  by (simp add: render_B_def Let_def evals_append evals_eval_logged)

lemma evals_render_series_A: "evals (render_series_A m e ss) = [SetSeries, ChartUpdateRedraw]"
  by (simp add: render_series_A_def evals_append evals_eval_logged)

lemma evals_render_current_A:
  "evals (render_current_A m e current) = evals (fst (renderCurrent m e current))"
  by (cases "renderCurrent m e current")
     (simp add: render_current_A_def log_Error_def evals_append split: option.splits)

lemma evals_renderCurrent:
  "evals (fst (renderCurrent m e w)) = [SetCurrentHTML] \<or>
   evals (fst (renderCurrent m e w)) = [SetCurrentHTML, ClassListRemove] \<or>
   evals (fst (renderCurrent m e w)) = [SetCurrentHTML, ClassListRemove, ClassListAdd]"
  by (simp add: renderCurrent_def Let_def split: option.splits)

lemma logged_eval:
  "Eval_err e sc = Some err \<Longrightarrow> LogError msg (name m) err \<in> set (eval_logged m e sc args msg)"
  by (simp add: eval_logged_def)

lemma logged_render_current_A:
  "snd (renderCurrent m e current) = Some err \<Longrightarrow>
   LogError ''Could not update current'' (name m) err \<in> set (render_current_A m e current)"
  by (cases "renderCurrent m e current") (simp add: render_current_A_def log_Error_def)

text \<open>
  C9. A pass in which the request, the aggregation and the encoding succeed makes the three
  changes to the display in the order current value, series, chart refresh, whichever of
  the evaluations fail: \<^verbatim>\<open>src/iotawatt.go\<close> evaluates one script for each, and
  \<^verbatim>\<open>src/unnamed/part_000\<close> evaluates the scripts of \<^verbatim>\<open>renderCurrent\<close> (up to its first failure)
  and then one for the series and one for the chart. The failure of a change is logged
  under that change's message, and the later changes are still made.
\<close>

theorem render_order:
  "(snd (request m (http e)) = Inr raw \<and> aggregate_B (Inputs (cfg m)) raw = Inr (ss, current) \<and>
    Marshal_err e = None \<longrightarrow>
      evals (fst (body_B m e)) = [SetCurrentNumber, SetSeries, ChartUpdate] \<and>
      map mutation_of (evals (fst (body_B m e))) = [CurrentValue, SeriesAssignment, ChartRefresh] \<and>
      (Eval_err e SetCurrentNumber = Some err \<longrightarrow>
         LogError ''Could not update current'' (name m) err \<in> set (fst (body_B m e))) \<and>
      (Eval_err e SetSeries = Some err \<longrightarrow>
         LogError ''Could not update series'' (name m) err \<in> set (fst (body_B m e))) \<and>
      (Eval_err e ChartUpdate = Some err \<longrightarrow>
         LogError ''Could not update chart'' (name m) err \<in> set (fst (body_B m e)))) \<and>
   (snd (request m (http e)) = Inr raw \<and> aggregate_A (Inputs (cfg m)) raw = Inr (ss, current) \<and>
    Marshal_err e = None \<longrightarrow>
      evals (fst (body_A m e)) =
        evals (fst (renderCurrent m e current)) @ [SetSeries, ChartUpdateRedraw] \<and>
      remdups_adj (map mutation_of (evals (fst (body_A m e)))) =
        [CurrentValue, SeriesAssignment, ChartRefresh] \<and>
      (snd (renderCurrent m e current) = Some err \<longrightarrow>
         LogError ''Could not update current'' (name m) err \<in> set (fst (body_A m e))) \<and>
      (Eval_err e SetSeries = Some err \<longrightarrow>
         LogError ''Could not update series'' (name m) err \<in> set (fst (body_A m e))) \<and>
      (Eval_err e ChartUpdateRedraw = Some err \<longrightarrow>
         LogError ''Could not update chart'' (name m) err \<in> set (fst (body_A m e))))"
proof (intro conjI impI)
  assume h: "snd (request m (http e)) = Inr raw \<and>
    aggregate_B (Inputs (cfg m)) raw = Inr (ss, current) \<and> Marshal_err e = None"
  then have b: "fst (body_B m e) = fst (request m (http e)) @ render_B m e ss current"
    by (simp add: body_B_renders)
  show ev: "evals (fst (body_B m e)) = [SetCurrentNumber, SetSeries, ChartUpdate]"
    by (simp add: b evals_append evals_request evals_render_B)
  show "map mutation_of (evals (fst (body_B m e))) = [CurrentValue, SeriesAssignment, ChartRefresh]"
    by (simp add: ev)
  { assume "Eval_err e SetCurrentNumber = Some err"
    then show "LogError ''Could not update current'' (name m) err \<in> set (fst (body_B m e))"
      by (simp add: b render_B_def Let_def logged_eval) }
  { assume "Eval_err e SetSeries = Some err"
    then show "LogError ''Could not update series'' (name m) err \<in> set (fst (body_B m e))"
      by (simp add: b render_B_def Let_def logged_eval) }
  { assume "Eval_err e ChartUpdate = Some err"
    then show "LogError ''Could not update chart'' (name m) err \<in> set (fst (body_B m e))"
      by (simp add: b render_B_def Let_def logged_eval) }
next
  assume h: "snd (request m (http e)) = Inr raw \<and>
    aggregate_A (Inputs (cfg m)) raw = Inr (ss, current) \<and> Marshal_err e = None"
  then have b: "fst (body_A m e) =
      fst (request m (http e)) @ render_current_A m e current @ render_series_A m e ss"
    by (simp add: body_A_renders)
  show ev: "evals (fst (body_A m e)) =
      evals (fst (renderCurrent m e current)) @ [SetSeries, ChartUpdateRedraw]"
    by (simp add: b evals_append evals_request evals_render_current_A evals_render_series_A)
  show "remdups_adj (map mutation_of (evals (fst (body_A m e)))) =
      [CurrentValue, SeriesAssignment, ChartRefresh]"
    using evals_renderCurrent [of m e current] by (auto simp: ev)
  { assume "snd (renderCurrent m e current) = Some err"
    then show "LogError ''Could not update current'' (name m) err \<in> set (fst (body_A m e))"
      by (simp add: b logged_render_current_A) }
  { assume "Eval_err e SetSeries = Some err"
    then show "LogError ''Could not update series'' (name m) err \<in> set (fst (body_A m e))"
      by (simp add: b render_series_A_def logged_eval) }
  { assume "Eval_err e ChartUpdateRedraw = Some err"
    then show "LogError ''Could not update chart'' (name m) err \<in> set (fst (body_A m e))"
      by (simp add: b render_series_A_def logged_eval) }
qed


theorem render_order_witness:
  "snd (request readme_module_B
          (http ((tick_with (response 200 [[100, 500]]))
                   \<lparr>Eval_err := (\<lambda>sc. Some (Foreign ''eval failed''))\<rparr>))) = Inr [[100, 500]] \<and>
   aggregate_B (Inputs (cfg readme_module_B)) [[100, 500]] = Inr ([Series [[100, 0.5]]], 0.5) \<and>
   aggregate_A (Inputs (cfg readme_module_A)) [[100, 500]] = Inr ([Series [[100, 500]]], 500) \<and>
   Marshal_err ((tick_with (response 200 [[100, 500]]))
                  \<lparr>Eval_err := (\<lambda>sc. Some (Foreign ''eval failed''))\<rparr>) = None \<and>
   snd (renderCurrent readme_module_A
          ((tick_with (response 200 [[100, 500]]))
             \<lparr>Eval_err := (\<lambda>sc. Some (Foreign ''eval failed''))\<rparr>) 500) =
     Some (Foreign ''eval failed'') \<and>
   evals (fst (body_B readme_module_B
                 ((tick_with (response 200 [[100, 500]]))
                    \<lparr>Eval_err := (\<lambda>sc. Some (Foreign ''eval failed''))\<rparr>))) =
     [SetCurrentNumber, SetSeries, ChartUpdate] \<and>
   {LogError ''Could not update current'' ''simple-iotawatt'' (Foreign ''eval failed''),
    LogError ''Could not update series'' ''simple-iotawatt'' (Foreign ''eval failed''),
    LogError ''Could not update chart'' ''simple-iotawatt'' (Foreign ''eval failed'')}
     \<subseteq> set (fst (body_B readme_module_B
                 ((tick_with (response 200 [[100, 500]]))
                    \<lparr>Eval_err := (\<lambda>sc. Some (Foreign ''eval failed''))\<rparr>))) \<and>
   evals (fst (body_A readme_module_A
                 ((tick_with (response 200 [[100, 500]]))
                    \<lparr>Eval_err := (\<lambda>sc. Some (Foreign ''eval failed''))\<rparr>))) =
     [SetCurrentHTML, SetSeries, ChartUpdateRedraw] \<and>
   {LogError ''Could not update current'' ''simple-iotawatt'' (Foreign ''eval failed''),
    LogError ''Could not update series'' ''simple-iotawatt'' (Foreign ''eval failed''),
    LogError ''Could not update chart'' ''simple-iotawatt'' (Foreign ''eval failed'')}
     \<subseteq> set (fst (body_A readme_module_A
                 ((tick_with (response 200 [[100, 500]]))
                    \<lparr>Eval_err := (\<lambda>sc. Some (Foreign ''eval failed''))\<rparr>)))"
proof -
  let ?e = "(tick_with (response 200 [[100, 500]]))
              \<lparr>Eval_err := (\<lambda>sc. Some (Foreign ''eval failed''))\<rparr>"
  have rB: "snd (request readme_module_B (http ?e)) = Inr [[100, 500]]"
    by (simp add: tick_with_def request_response)
  have rA: "snd (request readme_module_A (http ?e)) = Inr [[100, 500]]"
    by (simp add: tick_with_def request_response)
  have aB: "aggregate_B (Inputs (cfg readme_module_B)) [[100, 500]] =
      Inr ([Series [[100, 0.5]]], 0.5)"
    by (simp add: readme_module_B_def readme_cfg_def aggregate_B_one)
  have aA: "aggregate_A (Inputs (cfg readme_module_A)) [[100, 500]] =
      Inr ([Series [[100, 500]]], 500)"
    by (simp add: readme_module_A_def readme_cfg_def aggregate_A_one)
  have mar: "Marshal_err ?e = None"
    by (simp add: tick_with_def)
  have ev: "Eval_err ?e sc = Some (Foreign ''eval failed'')" for sc
    by simp
  have rc: "snd (renderCurrent readme_module_A ?e 500) = Some (Foreign ''eval failed'')"
    by (simp add: renderCurrent_def Let_def)
  have rce: "evals (fst (renderCurrent readme_module_A ?e 500)) = [SetCurrentHTML]"
    by (simp add: renderCurrent_def Let_def)
  have nB: "name readme_module_B = ''simple-iotawatt''"
    by (simp add: readme_module_B_def)
  have nA: "name readme_module_A = ''simple-iotawatt''"
    by (simp add: readme_module_A_def)
  note B = render_order [of readme_module_B ?e "[[100, 500]]" "[Series [[100, 0.5]]]" "0.5"
      "Foreign ''eval failed''", THEN conjunct1, rule_format, OF conjI [OF rB conjI [OF aB mar]]]
  note A = render_order [of readme_module_A ?e "[[100, 500]]" "[Series [[100, 500]]]" 500
      "Foreign ''eval failed''", THEN conjunct2, rule_format, OF conjI [OF rA conjI [OF aA mar]]]
  have B1: "evals (fst (body_B readme_module_B ?e)) = [SetCurrentNumber, SetSeries, ChartUpdate]"
    by (rule B [THEN conjunct1])
  have B2: "LogError ''Could not update current'' ''simple-iotawatt'' (Foreign ''eval failed'')
      \<in> set (fst (body_B readme_module_B ?e))"
    using B [THEN conjunct2, THEN conjunct2, THEN conjunct1, rule_format, OF ev]
    by (simp only: nB)
  have B3: "LogError ''Could not update series'' ''simple-iotawatt'' (Foreign ''eval failed'')
      \<in> set (fst (body_B readme_module_B ?e))"
    using B [THEN conjunct2, THEN conjunct2, THEN conjunct2, THEN conjunct1, rule_format, OF ev]
    by (simp only: nB)
  have B4: "LogError ''Could not update chart'' ''simple-iotawatt'' (Foreign ''eval failed'')
      \<in> set (fst (body_B readme_module_B ?e))"
    using B [THEN conjunct2, THEN conjunct2, THEN conjunct2, THEN conjunct2, rule_format, OF ev]
    by (simp only: nB)
  have A1: "evals (fst (body_A readme_module_A ?e)) = [SetCurrentHTML, SetSeries, ChartUpdateRedraw]"
    using A [THEN conjunct1] by (simp only: rce) simp
  have A2: "LogError ''Could not update current'' ''simple-iotawatt'' (Foreign ''eval failed'')
      \<in> set (fst (body_A readme_module_A ?e))"
    using A [THEN conjunct2, THEN conjunct2, THEN conjunct1, rule_format, OF rc]
    by (simp only: nA)
  have A3: "LogError ''Could not update series'' ''simple-iotawatt'' (Foreign ''eval failed'')
      \<in> set (fst (body_A readme_module_A ?e))"
    using A [THEN conjunct2, THEN conjunct2, THEN conjunct2, THEN conjunct1, rule_format, OF ev]
    by (simp only: nA)
  have A4: "LogError ''Could not update chart'' ''simple-iotawatt'' (Foreign ''eval failed'')
      \<in> set (fst (body_A readme_module_A ?e))"
    using A [THEN conjunct2, THEN conjunct2, THEN conjunct2, THEN conjunct2, rule_format, OF ev]
    by (simp only: nA)
  from rB aB aA mar rc B1 B2 B3 B4 A1 A2 A3 A4 show ?thesis
    by (intro conjI subsetI) (simp_all only: insert_iff empty_iff, auto)
qed

end
